theory Spec2Isabelle
  imports Complex_Main "HOL-Library.Multiset"
begin

section \<open>Dates and instants\<close>

text \<open>
  The program handles time through the dayjs library and through ISO date strings
  (\<^verbatim>\<open>'YYYY-MM-DD'\<close>).  The embedding fixes one representation for both:

  \<^item> a calendar date (the content of a \<^verbatim>\<open>'YYYY-MM-DD'\<close> string) is its day number, the
    number of days since 1970-01-01, an \<open>int\<close>; two date strings are equal exactly when
    their day numbers are;
  \<^item> a dayjs object is its \<^verbatim>\<open>valueOf()\<close>: the milliseconds since 1970-01-01 00:00 of the
    local wall clock, an \<open>int\<close>.

  The local zone is taken to have a constant offset (no daylight-saving change inside the
  range looked at), so that a calendar day is always 86400000 ms long.  The current instant
  \<^verbatim>\<open>dayjs()\<close>, which the source reads from the clock, is an explicit parameter \<open>now\<close>.
\<close>

type_synonym dayjs = int
type_synonym isodate = int

definition MILLISECONDS_A_DAY :: int where
  "MILLISECONDS_A_DAY = 86400000"

text \<open>\<^verbatim>\<open>dayjs('YYYY-MM-DD')\<close>: local midnight of the date.\<close>

definition dayjs_parse :: "isodate \<Rightarrow> dayjs" where
  "dayjs_parse d = d * MILLISECONDS_A_DAY"

text \<open>\<^verbatim>\<open>x.format('YYYY-MM-DD')\<close>: the calendar date an instant falls on.\<close>

definition format_date :: "dayjs \<Rightarrow> isodate" where
  "format_date x = x div MILLISECONDS_A_DAY"

text \<open>\<^verbatim>\<open>x.day()\<close>: 0 = Sunday .. 6 = Saturday; 1970-01-01 was a Thursday.\<close>

definition day :: "dayjs \<Rightarrow> int" where
  "day x = (format_date x + 4) mod 7"

definition startOf_day :: "dayjs \<Rightarrow> dayjs" where
  "startOf_day x = x - x mod MILLISECONDS_A_DAY"

definition endOf_day :: "dayjs \<Rightarrow> dayjs" where
  "endOf_day x = startOf_day x + MILLISECONDS_A_DAY - 1"

text \<open>\<^verbatim>\<open>a.isBefore(b)\<close> and \<^verbatim>\<open>a.isAfter(b)\<close> without a unit compare the instants.\<close>

definition isBefore :: "dayjs \<Rightarrow> dayjs \<Rightarrow> bool" where
  "isBefore a b = (a < b)"

definition isAfter :: "dayjs \<Rightarrow> dayjs \<Rightarrow> bool" where
  "isAfter a b = (b < a)"

text \<open>\<^verbatim>\<open>a.isSame(b, 'day')\<close>: \<open>b\<close> lies between the start and the end of the day of \<open>a\<close>.\<close>

definition isSame_day :: "dayjs \<Rightarrow> dayjs \<Rightarrow> bool" where
  "isSame_day a b = (startOf_day a \<le> b \<and> b \<le> endOf_day a)"

definition add_day :: "dayjs \<Rightarrow> int \<Rightarrow> dayjs" where
  "add_day x n = x + n * MILLISECONDS_A_DAY"

definition subtract_day :: "dayjs \<Rightarrow> int \<Rightarrow> dayjs" where
  "subtract_day x n = x - n * MILLISECONDS_A_DAY"

text \<open>
  \<^verbatim>\<open>a.diff(b, 'day')\<close>: the difference of the instants in days, truncated toward zero
  (dayjs applies \<^verbatim>\<open>n < 0 ? Math.ceil(n) || 0 : Math.floor(n)\<close>).
\<close>

definition diff_day :: "dayjs \<Rightarrow> dayjs \<Rightarrow> int" where
  "diff_day a b =
     (let n = a - b
      in if n < 0 then - ((- n) div MILLISECONDS_A_DAY) else n div MILLISECONDS_A_DAY)"

section \<open>Currency conversion\<close>


definition milliunitsToCurrency :: "int \<Rightarrow> rat" where
  "milliunitsToCurrency milliunits = of_int milliunits / 1000"


section \<open>Payment history\<close>

record PaymentHistoryItem =
  date :: isodate
  amount :: rat
  balance :: rat
  cleared :: "string option"
  memo :: "string option"

section \<open>Payment days remaining until the deadline\<close>

text \<open>
  The \<^verbatim>\<open>while\<close> loop of \<^verbatim>\<open>calculatePaymentDaysRemaining\<close>, with its two variables
  \<open>currentDate\<close> and \<open>paymentDaysCount\<close>.
\<close>

function countPaymentDays :: "dayjs \<Rightarrow> dayjs \<Rightarrow> int list \<Rightarrow> int \<Rightarrow> int" where
  "countPaymentDays currentDate deadline paymentDays paymentDaysCount =
     (if isBefore currentDate deadline \<or> isSame_day currentDate deadline
      then countPaymentDays (add_day currentDate 1) deadline paymentDays
             (if day currentDate \<in> set paymentDays
              then paymentDaysCount + 1 else paymentDaysCount)
      else paymentDaysCount)"
  by pat_completeness auto
termination
proof (relation "measure (\<lambda>(c, d, _, _). nat (format_date d - format_date c + 1))")
  show "wf (measure (\<lambda>(c, d, _, _). nat (format_date d - format_date c + 1)))"
    by simp
next
  fix currentDate deadline :: dayjs and paymentDays :: "int list" and paymentDaysCount :: int
  assume run: "isBefore currentDate deadline \<or> isSame_day currentDate deadline"
  have le: "format_date currentDate \<le> format_date deadline"
  proof -
    from run show ?thesis
    proof
      assume "isBefore currentDate deadline"
      then have "currentDate \<le> deadline" by (simp add: isBefore_def)
      then show ?thesis
        unfolding format_date_def MILLISECONDS_A_DAY_def by (rule zdiv_mono1) simp
    next
      assume "isSame_day currentDate deadline"
      then have "currentDate - currentDate mod 86400000 \<le> deadline"
        by (simp add: isSame_day_def startOf_day_def MILLISECONDS_A_DAY_def)
      then have "(currentDate - currentDate mod 86400000) div 86400000 \<le> deadline div 86400000"
        by (rule zdiv_mono1) simp
      moreover have "(currentDate - currentDate mod 86400000) div 86400000
                       = currentDate div 86400000"
        by (simp add: minus_mod_eq_mult_div)
      ultimately show ?thesis
        by (simp add: format_date_def MILLISECONDS_A_DAY_def)
    qed
  qed
  have "format_date (add_day currentDate 1) = format_date currentDate + 1"
    by (simp add: format_date_def add_day_def MILLISECONDS_A_DAY_def)
  with le show "((add_day currentDate 1, deadline, paymentDays,
                  if day currentDate \<in> set paymentDays
                  then paymentDaysCount + 1 else paymentDaysCount),
                 (currentDate, deadline, paymentDays, paymentDaysCount))
                \<in> measure (\<lambda>(c, d, _, _). nat (format_date d - format_date c + 1))"
    by simp
qed

declare countPaymentDays.simps [simp del]

text \<open>The filter predicate of \<open>paidDays\<close>.\<close>

definition isPaidDay :: "dayjs \<Rightarrow> dayjs \<Rightarrow> int list \<Rightarrow> PaymentHistoryItem \<Rightarrow> bool" where
  "isPaidDay today deadline paymentDays payment =
     (let paymentDate = dayjs_parse (date payment);
          dayOfWeek = day paymentDate
      in isAfter paymentDate (subtract_day today 1) \<and>
         isBefore paymentDate (add_day deadline 1) \<and>
         dayOfWeek \<in> set paymentDays \<and>
         amount payment \<ge> 0)"

definition paidDays :: "dayjs \<Rightarrow> dayjs \<Rightarrow> int list \<Rightarrow> PaymentHistoryItem list \<Rightarrow> int" where
  "paidDays today deadline paymentDays paymentHistory =
     int (length (filter (isPaidDay today deadline paymentDays) paymentHistory))"

definition calculatePaymentDaysRemaining ::
  "dayjs \<Rightarrow> isodate \<Rightarrow> int list \<Rightarrow> PaymentHistoryItem list \<Rightarrow> int" where
  "calculatePaymentDaysRemaining now endDate paymentDays paymentHistory =
     (let today = now;
          deadline = dayjs_parse endDate;
          paymentDaysCount = countPaymentDays today deadline paymentDays 0;
          paidDays = paidDays today deadline paymentDays paymentHistory
      in max 0 (paymentDaysCount - paidDays))"

text \<open>
  \<^verbatim>\<open>getDaysUntilDeadline\<close>: the day difference between the deadline's midnight and the
  current instant, clamped at zero.
\<close>

definition getDaysUntilDeadline :: "dayjs \<Rightarrow> isodate \<Rightarrow> int" where
  "getDaysUntilDeadline now endDate =
     (let today = now;
          deadline = dayjs_parse endDate;
          diffDays = diff_day deadline today
      in max 0 diffDays)"

section \<open>Status of the day\<close>

text \<open>
  The four objects \<^verbatim>\<open>debtStatus\<close> can return, named after their texts: "Pago realizado
  hoy" (payment completed today), "Pago pendiente hoy" (payment pending today), "No es dia
  de pago" (not a payment day) and "Al dia" (up to date).
\<close>

datatype DebtStatus = PagoRealizadoHoy | PagoPendienteHoy | NoEsDiaDePago | AlDia

definition madePaymentToday :: "isodate \<Rightarrow> PaymentHistoryItem list \<Rightarrow> bool" where
  "madePaymentToday todayString paymentHistory =
     list_ex (\<lambda>payment. date payment = todayString \<and> amount payment \<ge> 0) paymentHistory"

definition debtStatus :: "dayjs \<Rightarrow> int list \<Rightarrow> PaymentHistoryItem list \<Rightarrow> DebtStatus" where
  "debtStatus now paymentDays paymentHistory =
     (let today = now;
          dayOfWeek = day today;
          todayString = format_date today;
          isPaymentDay = (dayOfWeek \<in> set paymentDays);
          madeToday = madePaymentToday todayString paymentHistory
      in if isPaymentDay \<and> madeToday then PagoRealizadoHoy
         else if isPaymentDay \<and> \<not> madeToday then PagoPendienteHoy
         else if \<not> isPaymentDay then NoEsDiaDePago
         else AlDia)"

section \<open>Estimated finish date\<close>

text \<open>
  \<^verbatim>\<open>estimatedFinishDate\<close> returns the string "N/A" or a formatted date; the model returns
  \<open>NotApplicable\<close> or the calendar date that is formatted.  \<^verbatim>\<open>setDate(getDate() + n)\<close>
  moves an instant by \<open>n\<close> calendar days.
\<close>

datatype FinishDate = NotApplicable | FinishOn isodate

definition paymentsLeft :: "rat \<Rightarrow> rat \<Rightarrow> int" where
  "paymentsLeft accountBalance presetPaymentAmount =
     \<lceil>accountBalance / presetPaymentAmount\<rceil>"

definition estimatedFinishDate :: "dayjs \<Rightarrow> rat \<Rightarrow> rat \<Rightarrow> FinishDate" where
  "estimatedFinishDate now accountBalance presetPaymentAmount =
     (if presetPaymentAmount \<le> 0 then NotApplicable
      else let daysToFinish = paymentsLeft accountBalance presetPaymentAmount * 15;
               finishDate = add_day now daysToFinish
           in FinishOn (format_date finishDate))"

section \<open>Reconciling the ledger's transactions\<close>

text \<open>
  A transaction as the ledger returns it: the fields of the source's \<^verbatim>\<open>t\<close> that the
  conversion reads (\<^verbatim>\<open>t.date\<close>, \<^verbatim>\<open>t.amount\<close> in milliunits, \<^verbatim>\<open>t.cleared\<close>, \<^verbatim>\<open>t.memo\<close>).
\<close>

record Transaction =
  t_date :: isodate
  t_amount :: int
  t_cleared :: string
  t_memo :: "string option"

text \<open>\<^verbatim>\<open>new Date(d).getTime()\<close> of a date string: its midnight in milliseconds.\<close>

definition Date_getTime :: "isodate \<Rightarrow> int" where
  "Date_getTime d = d * MILLISECONDS_A_DAY"

text \<open>
  \<^verbatim>\<open>.sort((a, b) => new Date(b.date).getTime() - new Date(a.date).getTime())\<close>: a stable
  sort, descending in the time of the date.
\<close>

definition sort_newest_first :: "Transaction list \<Rightarrow> Transaction list" where
  "sort_newest_first transactions =
     sort_key (\<lambda>t. - Date_getTime (t_date t)) transactions"

text \<open>The object built by the \<^verbatim>\<open>.map\<close> callback; \<^verbatim>\<open>t.memo || undefined\<close> drops an empty memo.\<close>

definition toPaymentHistoryItem :: "Transaction \<Rightarrow> PaymentHistoryItem" where
  "toPaymentHistoryItem t =
     \<lparr> date = t_date t,
       amount = milliunitsToCurrency \<bar>t_amount t\<bar>,
       balance = milliunitsToCurrency \<bar>t_amount t\<bar>,
       cleared = Some (t_cleared t),
       memo = (case t_memo t of None \<Rightarrow> None
               | Some m \<Rightarrow> if m = [] then None else Some m) \<rparr>"

definition paymentTransactions :: "Transaction list \<Rightarrow> PaymentHistoryItem list" where
  "paymentTransactions transactions =
     map toPaymentHistoryItem (take 20 (sort_newest_first transactions))"

section \<open>The specification's formulations\<close>

text \<open>
  The definitions of this section follow the words of the specification, not the code;
  the theorems below compare them with the code.
\<close>

text \<open>A date is a scheduled day when its weekday ordinal (Sunday = 0) is in the set.\<close>

definition isScheduledDay_spec :: "isodate \<Rightarrow> int list \<Rightarrow> bool" where
  "isScheduledDay_spec d scheduledWeekdays = ((d + 4) mod 7 \<in> set scheduledWeekdays)"

text \<open>Every calendar date from today through the deadline, inclusive, that is scheduled.\<close>

definition totalScheduledDays_spec :: "isodate \<Rightarrow> isodate \<Rightarrow> int list \<Rightarrow> int" where
  "totalScheduledDays_spec today deadline scheduledWeekdays =
     int (length (filter (\<lambda>d. isScheduledDay_spec d scheduledWeekdays) [today..deadline]))"

text \<open>
  The records dated within \<open>[today - 1 day, deadline + 1 day]\<close>, on a scheduled weekday,
  with a non-negative amount.
\<close>

definition satisfiedDays_spec ::
  "isodate \<Rightarrow> isodate \<Rightarrow> int list \<Rightarrow> PaymentHistoryItem list \<Rightarrow> int" where
  "satisfiedDays_spec today deadline scheduledWeekdays paymentHistory =
     int (length (filter (\<lambda>p. today - 1 \<le> date p \<and> date p \<le> deadline + 1 \<and>
                               isScheduledDay_spec (date p) scheduledWeekdays \<and>
                               amount p \<ge> 0) paymentHistory))"

text \<open>The calendar-day difference, clamped to zero once the deadline has passed.\<close>

definition daysUntilDeadline_spec :: "isodate \<Rightarrow> isodate \<Rightarrow> int" where
  "daysUntilDeadline_spec today deadline = max 0 (deadline - today)"

text \<open>
  Absolute value and conversion to decimal for each record, sort by date descending,
  truncate to the 20 most recent.
\<close>

definition reconcile_spec :: "Transaction list \<Rightarrow> PaymentHistoryItem list" where
  "reconcile_spec transactions =
     take 20 (sort_key (\<lambda>p. - date p) (map toPaymentHistoryItem transactions))"

section \<open>Facts about dates\<close>

lemma format_date_parse: "format_date (dayjs_parse d) = d"
  by (simp add: format_date_def dayjs_parse_def MILLISECONDS_A_DAY_def)

lemma format_date_add_day: "format_date (add_day x n) = format_date x + n"
  by (simp add: format_date_def add_day_def MILLISECONDS_A_DAY_def)

lemma day_parse: "day (dayjs_parse d) = (d + 4) mod 7"
  by (simp add: day_def format_date_parse)

lemma loop_condition:
  "(isBefore c d \<or> isSame_day c d) = (format_date c \<le> format_date d)"
proof -
  have m: "(0::int) < 86400000" by simp
  have c: "c = 86400000 * (c div 86400000) + c mod 86400000" by simp
  have d: "d = 86400000 * (d div 86400000) + d mod 86400000" by simp
  have c0: "0 \<le> c mod 86400000" and c1: "c mod 86400000 < 86400000"
    and d0: "0 \<le> d mod 86400000" and d1: "d mod 86400000 < 86400000"
    by simp_all
  show ?thesis
    unfolding isBefore_def isSame_day_def startOf_day_def endOf_day_def format_date_def
      MILLISECONDS_A_DAY_def
    using c d c0 c1 d0 d1 by arith
qed

section \<open>The loop and the filter in closed form\<close>

lemma countPaymentDays_eq:
  "countPaymentDays c d pds acc =
     acc + totalScheduledDays_spec (format_date c) (format_date d) pds"
proof (induction c d pds acc rule: countPaymentDays.induct)
  case (1 c d pds acc)
  show ?case
  proof (cases "format_date c \<le> format_date d")
    case True
    then have run: "isBefore c d \<or> isSame_day c d" by (simp add: loop_condition)
    have up: "[format_date c..format_date d] = format_date c # [format_date c + 1..format_date d]"
      using True by (simp add: upto_rec1)
    have "countPaymentDays c d pds acc =
            countPaymentDays (add_day c 1) d pds (if day c \<in> set pds then acc + 1 else acc)"
      using run by (subst countPaymentDays.simps) simp
    also have "\<dots> = (if day c \<in> set pds then acc + 1 else acc)
                 + totalScheduledDays_spec (format_date (add_day c 1)) (format_date d) pds"
      using run by (rule "1.IH")
    also have "\<dots> = acc + totalScheduledDays_spec (format_date c) (format_date d) pds"
      by (simp add: totalScheduledDays_spec_def up isScheduledDay_spec_def day_def
            format_date_add_day)
    finally show ?thesis .
  next
    case False
    then have stop: "\<not> (isBefore c d \<or> isSame_day c d)" by (simp add: loop_condition)
    have "[format_date c..format_date d] = []" using False by simp
    then have "totalScheduledDays_spec (format_date c) (format_date d) pds = 0"
      by (simp add: totalScheduledDays_spec_def)
    moreover have "countPaymentDays c d pds acc = acc"
      using stop by (subst countPaymentDays.simps) simp
    ultimately show ?thesis by simp
  qed
qed

lemma isPaidDay_window:
  "isPaidDay today (dayjs_parse endDate) pds p =
     (format_date today \<le> date p \<and> date p \<le> endDate \<and>
      isScheduledDay_spec (date p) pds \<and> amount p \<ge> 0)"
proof -
  have t: "today = 86400000 * (today div 86400000) + today mod 86400000" by simp
  have t0: "0 \<le> today mod 86400000" and t1: "today mod 86400000 < 86400000" by simp_all
  have a: "isAfter (dayjs_parse (date p)) (subtract_day today 1) = (format_date today \<le> date p)"
    unfolding isAfter_def dayjs_parse_def subtract_day_def format_date_def MILLISECONDS_A_DAY_def
    using t t0 t1 by arith
  have b: "isBefore (dayjs_parse (date p)) (add_day (dayjs_parse endDate) 1) = (date p \<le> endDate)"
    unfolding isBefore_def dayjs_parse_def add_day_def MILLISECONDS_A_DAY_def by arith
  show ?thesis
    unfolding isPaidDay_def Let_def a b by (simp add: day_parse isScheduledDay_spec_def)
qed

lemma paidDays_eq:
  "paidDays now (dayjs_parse endDate) pds h =
     int (length (filter (\<lambda>p. format_date now \<le> date p \<and> date p \<le> endDate \<and>
                               day (dayjs_parse (date p)) \<in> set pds \<and> amount p \<ge> 0) h))"
proof -
  have "isPaidDay now (dayjs_parse endDate) pds =
          (\<lambda>p. format_date now \<le> date p \<and> date p \<le> endDate \<and>
                day (dayjs_parse (date p)) \<in> set pds \<and> amount p \<ge> 0)"
    by (rule ext) (simp add: isPaidDay_window isScheduledDay_spec_def day_parse)
  then show ?thesis by (simp add: paidDays_def)
qed

lemma calculate_eq:
  "calculatePaymentDaysRemaining now endDate pds h =
     max 0 (totalScheduledDays_spec (format_date now) endDate pds
            - paidDays now (dayjs_parse endDate) pds h)"
  unfolding calculatePaymentDaysRemaining_def Let_def countPaymentDays_eq format_date_parse
  by simp

text \<open>
  A run of the function: Monday 1970-01-05 at 10:00, deadline the Sunday after, payments
  due Monday to Friday.  Five scheduled days lie ahead, two of them are paid (one by a
  blank payment), and the record of the day before today is outside the window.
\<close>

lemma calculatePaymentDaysRemaining_example:
  "calculatePaymentDaysRemaining (4 * 86400000 + 36000000) 10 [1, 2, 3, 4, 5]
     [\<lparr>date = 5, amount = 0, balance = 0, cleared = None, memo = None\<rparr>,
      \<lparr>date = 4, amount = 20, balance = 20, cleared = None, memo = None\<rparr>,
      \<lparr>date = 3, amount = 20, balance = 20, cleared = None, memo = None\<rparr>] = 3"
  by code_simp

section \<open>Payment days remaining\<close>



text \<open>
  Claim C2, as the specification words it: the paid days would be the records dated within
  \<open>[today - 1 day, deadline + 1 day]\<close>.  The code compares strictly against the two
  shifted instants, so a record dated the day before today or the day after the deadline
  is not counted.
\<close>

theorem satisfiedDays_window_counterexample:
  "paidDays (4 * 86400000 + 36000000) (dayjs_parse 6) [0, 1, 2, 3, 4, 5, 6]
     [\<lparr>date = 3, amount = 20, balance = 20, cleared = None, memo = None\<rparr>,
      \<lparr>date = 7, amount = 20, balance = 20, cleared = None, memo = None\<rparr>] = 0
   \<and> satisfiedDays_spec (format_date (4 * 86400000 + 36000000)) 6 [0, 1, 2, 3, 4, 5, 6]
     [\<lparr>date = 3, amount = 20, balance = 20, cleared = None, memo = None\<rparr>,
      \<lparr>date = 7, amount = 20, balance = 20, cleared = None, memo = None\<rparr>] = 2"
  by (simp add: paidDays_def isPaidDay_def satisfiedDays_spec_def isScheduledDay_spec_def
        format_date_def dayjs_parse_def day_def isAfter_def isBefore_def add_day_def
        subtract_day_def MILLISECONDS_A_DAY_def)

text \<open>
  Claim C2, amended.  The paid days are exactly the records dated from today's date
  through the deadline's date, both included, whose weekday is a payment weekday and whose
  amount is not negative.  A record on another weekday, wherever it stands in the history,
  never changes the remaining count, and \<open>n\<close> copies of a qualifying record add \<open>n\<close> to
  the paid days.
\<close>

theorem paidDays_counts_window:
  "paidDays now (dayjs_parse endDate) pds h =
     int (length (filter (\<lambda>p. format_date now \<le> date p \<and> date p \<le> endDate \<and>
                               day (dayjs_parse (date p)) \<in> set pds \<and> amount p \<ge> 0) h))
   \<and> (day (dayjs_parse (date p)) \<notin> set pds \<longrightarrow>
        calculatePaymentDaysRemaining now endDate pds (h1 @ p # h2) =
        calculatePaymentDaysRemaining now endDate pds (h1 @ h2))
   \<and> (format_date now \<le> date p \<and> date p \<le> endDate \<and>
      day (dayjs_parse (date p)) \<in> set pds \<and> amount p \<ge> 0 \<longrightarrow>
        paidDays now (dayjs_parse endDate) pds (replicate n p @ h) =
        int n + paidDays now (dayjs_parse endDate) pds h)"
proof (intro conjI impI)
  show "paidDays now (dayjs_parse endDate) pds h =
     int (length (filter (\<lambda>p. format_date now \<le> date p \<and> date p \<le> endDate \<and>
                               day (dayjs_parse (date p)) \<in> set pds \<and> amount p \<ge> 0) h))"
    by (rule paidDays_eq)
next
  assume "day (dayjs_parse (date p)) \<notin> set pds"
  then have "paidDays now (dayjs_parse endDate) pds (h1 @ p # h2) =
             paidDays now (dayjs_parse endDate) pds (h1 @ h2)"
    by (simp add: paidDays_eq)
  then show "calculatePaymentDaysRemaining now endDate pds (h1 @ p # h2) =
        calculatePaymentDaysRemaining now endDate pds (h1 @ h2)"
    by (simp add: calculate_eq)
next
  assume q: "format_date now \<le> date p \<and> date p \<le> endDate \<and>
      day (dayjs_parse (date p)) \<in> set pds \<and> amount p \<ge> 0"
  then show "paidDays now (dayjs_parse endDate) pds (replicate n p @ h) =
        int n + paidDays now (dayjs_parse endDate) pds h"
    by (simp add: paidDays_eq)
qed

theorem paidDays_counts_window_witness:
  "day (dayjs_parse (date \<lparr>date = 3, amount = 20, balance = 20, cleared = None, memo = None\<rparr>))
     \<notin> set [1, 2, 3, 4, 5, 6]
   \<and> calculatePaymentDaysRemaining (36000000) 6 [1, 2, 3, 4, 5, 6]
       [\<lparr>date = 3, amount = 20, balance = 20, cleared = None, memo = None\<rparr>] =
     calculatePaymentDaysRemaining (36000000) 6 [1, 2, 3, 4, 5, 6] []
   \<and> format_date 36000000 \<le> date \<lparr>date = 4, amount = 0, balance = 0, cleared = None, memo = None\<rparr>
   \<and> date \<lparr>date = 4, amount = 0, balance = 0, cleared = None, memo = None\<rparr> \<le> 6
   \<and> day (dayjs_parse (date \<lparr>date = 4, amount = 0, balance = 0, cleared = None, memo = None\<rparr>))
       \<in> set [1, 2, 3, 4, 5, 6]
   \<and> amount \<lparr>date = 4, amount = 0, balance = 0, cleared = None, memo = None\<rparr> \<ge> 0
   \<and> paidDays 36000000 (dayjs_parse 6) [1, 2, 3, 4, 5, 6]
       (replicate 2 \<lparr>date = 4, amount = 0, balance = 0, cleared = None, memo = None\<rparr> @ []) =
     int 2 + paidDays 36000000 (dayjs_parse 6) [1, 2, 3, 4, 5, 6] []"
  using paidDays_counts_window [of 36000000 6 "[1, 2, 3, 4, 5, 6]" "[]"
               "\<lparr>date = 3, amount = 20, balance = 20, cleared = None, memo = None\<rparr>" "[]" "[]" 2]
        paidDays_counts_window [of 36000000 6 "[1, 2, 3, 4, 5, 6]" "[]"
               "\<lparr>date = 4, amount = 0, balance = 0, cleared = None, memo = None\<rparr>" "[]" "[]" 2]
  by (simp add: day_parse format_date_def MILLISECONDS_A_DAY_def)

section \<open>The status of the day\<close>

lemma madePaymentToday_iff:
  "madePaymentToday td h = (\<exists>p\<in>set h. date p = td \<and> amount p \<ge> 0)"
  by (simp add: madePaymentToday_def list_ex_iff)

text \<open>
  Claim C3.  When today's weekday is a payment weekday and some record of the history is
  dated today with a non-negative amount, the status is "payment completed today"; when
  today's weekday is a payment weekday and there is no such record, it is "payment pending
  today"; when today's weekday is not a payment weekday, it is "not a payment day" whatever
  the history; with no payment weekdays at all it is "not a payment day" on every date.
\<close>

theorem debtStatus_verdicts:
  "(day now \<in> set pds \<and> (\<exists>p\<in>set h. date p = format_date now \<and> amount p \<ge> 0)
      \<longrightarrow> debtStatus now pds h = PagoRealizadoHoy)
   \<and> (day now \<in> set pds \<and> \<not> (\<exists>p\<in>set h. date p = format_date now \<and> amount p \<ge> 0)
      \<longrightarrow> debtStatus now pds h = PagoPendienteHoy)
   \<and> (day now \<notin> set pds \<longrightarrow> debtStatus now pds h = NoEsDiaDePago)
   \<and> debtStatus now [] h = NoEsDiaDePago"
  by (simp add: debtStatus_def Let_def madePaymentToday_iff)

theorem debtStatus_verdicts_witness:
  "(day (4 * 86400000 + 36000000) \<in> set [1, 2, 3, 4, 5]
    \<and> (\<exists>p\<in>set [\<lparr>date = 4, amount = 20, balance = 20, cleared = None, memo = None\<rparr>].
           date p = format_date (4 * 86400000 + 36000000) \<and> amount p \<ge> 0)
    \<and> debtStatus (4 * 86400000 + 36000000) [1, 2, 3, 4, 5]
          [\<lparr>date = 4, amount = 20, balance = 20, cleared = None, memo = None\<rparr>]
        = PagoRealizadoHoy)
   \<and> (day (4 * 86400000 + 36000000) \<in> set [1, 2, 3, 4, 5]
    \<and> \<not> (\<exists>p\<in>set []. date p = format_date (4 * 86400000 + 36000000) \<and> amount p \<ge> 0)
    \<and> debtStatus (4 * 86400000 + 36000000) [1, 2, 3, 4, 5] [] = PagoPendienteHoy)
   \<and> (day (2 * 86400000 + 36000000) \<notin> set [1, 2, 3, 4, 5]
    \<and> debtStatus (2 * 86400000 + 36000000) [1, 2, 3, 4, 5]
          [\<lparr>date = 2, amount = 20, balance = 20, cleared = None, memo = None\<rparr>]
        = NoEsDiaDePago)"
  using debtStatus_verdicts [of "4 * 86400000 + 36000000" "[1, 2, 3, 4, 5]"
               "[\<lparr>date = 4, amount = 20, balance = 20, cleared = None, memo = None\<rparr>]"]
        debtStatus_verdicts [of "4 * 86400000 + 36000000" "[1, 2, 3, 4, 5]" "[]"]
        debtStatus_verdicts [of "2 * 86400000 + 36000000" "[1, 2, 3, 4, 5]"
               "[\<lparr>date = 2, amount = 20, balance = 20, cleared = None, memo = None\<rparr>]"]
  by (simp add: day_def format_date_def MILLISECONDS_A_DAY_def)

text \<open>
  Claim C8.  The fourth branch of \<open>debtStatus\<close>, the "up to date" verdict, is never taken:
  no instant, list of payment weekdays and history produce it.
\<close>

theorem debtStatus_never_AlDia: "debtStatus now pds h \<noteq> AlDia"
  by (simp add: debtStatus_def Let_def)

section \<open>The estimated finish date\<close>



text \<open>
  Claim C7.  For every payment amount that is zero or negative the projection is the
  sentinel "N/A": the division is not reached and no date is produced.
\<close>

theorem estimatedFinishDate_not_applicable:
  "presetPaymentAmount \<le> 0 \<Longrightarrow>
     estimatedFinishDate now accountBalance presetPaymentAmount = NotApplicable"
  by (simp add: estimatedFinishDate_def)

theorem estimatedFinishDate_not_applicable_witness:
  "(0::rat) \<le> 0 \<and> estimatedFinishDate 36000000 300 0 = NotApplicable
   \<and> (-5::rat) \<le> 0 \<and> estimatedFinishDate 36000000 300 (-5) = NotApplicable"
  using estimatedFinishDate_not_applicable [of 0 36000000 300] estimatedFinishDate_not_applicable [of "-5" 36000000 300] by simp

section \<open>Days until the deadline\<close>

lemma parse_minus_div:
  "(dayjs_parse e - now) div MILLISECONDS_A_DAY =
     e - format_date now - (if now = startOf_day now then 0 else 1)"
proof -
  define q r where "q = now div 86400000" and "r = now mod 86400000"
  have now: "now = 86400000 * q + r" and r0: "0 \<le> r" and r1: "r < 86400000"
    by (simp_all add: q_def r_def)
  show ?thesis
  proof (cases "r = 0")
    case True
    have "(e * 86400000 - now) div 86400000 = e - q"
      by (rule int_div_pos_eq [where r = 0]) (simp_all add: now True algebra_simps)
    then show ?thesis
      using True by (simp add: dayjs_parse_def format_date_def startOf_day_def
          MILLISECONDS_A_DAY_def q_def r_def)
  next
    case False
    have "(e * 86400000 - now) div 86400000 = e - q - 1"
      by (rule int_div_pos_eq [where r = "86400000 - r"])
        (use r0 r1 False in \<open>simp_all add: now algebra_simps\<close>)
    then show ?thesis
      using False by (simp add: dayjs_parse_def format_date_def startOf_day_def
          MILLISECONDS_A_DAY_def q_def r_def)
  qed
qed

lemma getDaysUntilDeadline_eq:
  "getDaysUntilDeadline now endDate =
     max 0 (endDate - format_date now - (if now = startOf_day now then 0 else 1))"
proof (cases "dayjs_parse endDate - now < 0")
  case False
  then show ?thesis
    by (simp add: getDaysUntilDeadline_def diff_day_def Let_def parse_minus_div)
next
  case True
  have "0 \<le> (- (dayjs_parse endDate - now)) div MILLISECONDS_A_DAY"
    using True by (simp add: MILLISECONDS_A_DAY_def pos_imp_zdiv_nonneg_iff)
  then have l: "getDaysUntilDeadline now endDate = 0"
    using True by (simp add: getDaysUntilDeadline_def diff_day_def Let_def)
  have "(dayjs_parse endDate - now) div MILLISECONDS_A_DAY < 0"
    using True by (simp add: MILLISECONDS_A_DAY_def div_neg_pos_less0)
  then have "endDate - format_date now - (if now = startOf_day now then 0 else 1) < 0"
    by (simp only: parse_minus_div)
  with l show ?thesis by simp
qed

lemma startOf_day_add_day: "(add_day now k = startOf_day (add_day now k)) = (now = startOf_day now)"
  by (simp add: add_day_def startOf_day_def MILLISECONDS_A_DAY_def)

lemma startOf_day_parse: "startOf_day (dayjs_parse d) = dayjs_parse d"
  by (simp add: startOf_day_def dayjs_parse_def MILLISECONDS_A_DAY_def)

text \<open>
  Claim C5, as the specification words it: the result would be the calendar-day difference
  between the deadline's date and today's date, clamped at zero.  At 10:00 on the day
  before the deadline the code returns 0, the calendar-day difference is 1.
\<close>

theorem getDaysUntilDeadline_calendar_difference_counterexample:
  "getDaysUntilDeadline 36000000 1 = 0
   \<and> daysUntilDeadline_spec (format_date 36000000) 1 = 1"
  by (simp add: getDaysUntilDeadline_def diff_day_def dayjs_parse_def
      daysUntilDeadline_spec_def format_date_def MILLISECONDS_A_DAY_def)

text \<open>
  Claim C5, amended.  With the deadline fixed, the result does not increase when the
  current instant advances by one day.  It is the number of whole days from the current
  instant to the deadline's midnight, with no weekday filtering: the calendar-day
  difference at midnight, one less at any later time of the day, and never below 0.
  Evaluated at midnight it is the specification's clamped calendar-day difference.  It is
  0 for every today on or after the deadline's date.
\<close>

theorem getDaysUntilDeadline_whole_days:
  "getDaysUntilDeadline (add_day now 1) endDate \<le> getDaysUntilDeadline now endDate
   \<and> getDaysUntilDeadline now endDate =
       max 0 (endDate - format_date now - (if now = startOf_day now then 0 else 1))
   \<and> getDaysUntilDeadline (dayjs_parse today) endDate = daysUntilDeadline_spec today endDate
   \<and> (endDate \<le> format_date now \<longrightarrow> getDaysUntilDeadline now endDate = 0)
   \<and> 0 \<le> getDaysUntilDeadline now endDate"
proof (intro conjI impI)
  show "getDaysUntilDeadline (add_day now 1) endDate \<le> getDaysUntilDeadline now endDate"
    by (simp add: getDaysUntilDeadline_eq format_date_add_day startOf_day_add_day)
  show "getDaysUntilDeadline now endDate =
       max 0 (endDate - format_date now - (if now = startOf_day now then 0 else 1))"
    by (rule getDaysUntilDeadline_eq)
  show "getDaysUntilDeadline (dayjs_parse today) endDate = daysUntilDeadline_spec today endDate"
    by (simp add: getDaysUntilDeadline_eq format_date_parse startOf_day_parse
        daysUntilDeadline_spec_def)
  show "0 \<le> getDaysUntilDeadline now endDate"
    by (simp add: getDaysUntilDeadline_eq)
  show "getDaysUntilDeadline now endDate = 0" if "endDate \<le> format_date now"
    using that by (simp add: getDaysUntilDeadline_eq)
qed

theorem getDaysUntilDeadline_whole_days_witness:
  "(3::int) \<le> format_date (3 * 86400000 + 36000000)
   \<and> getDaysUntilDeadline (3 * 86400000 + 36000000) 3 = 0"
  using getDaysUntilDeadline_whole_days [of "3 * 86400000 + 36000000" 3]
  by (simp add: format_date_def MILLISECONDS_A_DAY_def)

section \<open>The reconciled history\<close>

lemma insort_key_order_cong:
  "(\<And>y. y \<in> set ys \<Longrightarrow> (f x \<le> f y) = (g x \<le> g y)) \<Longrightarrow>
     insort_key f x ys = insort_key g x ys"
  by (induction ys) simp_all

lemma sort_key_order_cong:
  "(\<And>x y. (f x \<le> f y) = (g x \<le> g y)) \<Longrightarrow> sort_key f xs = sort_key g xs"
proof (induction xs)
  case Nil
  show ?case by simp
next
  case (Cons x xs)
  have "insort_key f x (sort_key g xs) = insort_key g x (sort_key g xs)"
    by (rule insort_key_order_cong) (rule Cons.prems)
  with Cons show ?case by simp
qed

lemma map_insort_key:
  "map h (insort_key (\<lambda>x. g (h x)) x xs) = insort_key g (h x) (map h xs)"
  by (induction xs) simp_all

lemma map_sort_key:
  "map h (sort_key (\<lambda>x. g (h x)) xs) = sort_key g (map h xs)"
  by (induction xs) (simp_all add: map_insort_key)

lemma sort_newest_first_eq:
  "sort_newest_first ts = sort_key (\<lambda>t. - date (toPaymentHistoryItem t)) ts"
  unfolding sort_newest_first_def
  by (rule sort_key_order_cong)
    (simp add: Date_getTime_def MILLISECONDS_A_DAY_def toPaymentHistoryItem_def)

lemma paymentTransactions_eq_spec: "paymentTransactions ts = reconcile_spec ts"
proof -
  have "map toPaymentHistoryItem (sort_newest_first ts) =
          sort_key (\<lambda>p. - date p) (map toPaymentHistoryItem ts)"
    unfolding sort_newest_first_eq
    by (rule map_sort_key [of toPaymentHistoryItem "\<lambda>p. - date p" ts])
  moreover have "map toPaymentHistoryItem (take 20 (sort_newest_first ts)) =
          take 20 (map toPaymentHistoryItem (sort_newest_first ts))"
    by (rule take_map [symmetric])
  ultimately show ?thesis
    by (simp only: paymentTransactions_def reconcile_spec_def)
qed

lemma sorted_newest_first:
  "sorted_wrt (\<lambda>a b. t_date b \<le> t_date a) (sort_newest_first ts)"
proof -
  have "sorted (map (\<lambda>t. - t_date t) (sort_key (\<lambda>t. - t_date t) ts))"
    by (rule sorted_sort_key)
  moreover have "sort_newest_first ts = sort_key (\<lambda>t. - t_date t) ts"
    unfolding sort_newest_first_def
    by (rule sort_key_order_cong) (simp add: Date_getTime_def MILLISECONDS_A_DAY_def)
  ultimately show ?thesis
    by (simp add: sorted_map)
qed

lemma amount_nonneg: "0 \<le> amount (toPaymentHistoryItem t)"
  by (simp add: toPaymentHistoryItem_def milliunitsToCurrency_def)

text \<open>
  Claim C6.  For every list of transactions the reconciled history is the one the
  specification describes: each record converted (absolute value of the milliunits, divided
  by 1000), sorted by date with the newest first, and cut to the first 20.  It has
  \<open>min 20 n\<close> records for \<open>n\<close> transactions, its dates descend, every dropped transaction
  is no newer than any kept record, and kept and dropped records together are the
  converted transactions.
\<close>

theorem paymentTransactions_reconciles:
  "paymentTransactions ts = reconcile_spec ts
   \<and> length (paymentTransactions ts) = min 20 (length ts)
   \<and> sorted_wrt (\<lambda>p q. date q \<le> date p) (paymentTransactions ts)
   \<and> (\<forall>p \<in> set (paymentTransactions ts).
        \<forall>t \<in> set (drop 20 (sort_newest_first ts)). t_date t \<le> date p)
   \<and> mset (paymentTransactions ts @ map toPaymentHistoryItem (drop 20 (sort_newest_first ts)))
       = mset (map toPaymentHistoryItem ts)
   \<and> amount (toPaymentHistoryItem t) = of_int \<bar>t_amount t\<bar> / 1000
   \<and> date (toPaymentHistoryItem t) = t_date t"
proof (intro conjI)
  let ?s = "sort_newest_first ts"
  have split: "sorted_wrt (\<lambda>a b. t_date b \<le> t_date a) (take 20 ?s @ drop 20 ?s)"
    using sorted_newest_first [of ts] by simp
  show "paymentTransactions ts = reconcile_spec ts"
    by (rule paymentTransactions_eq_spec)
  show "length (paymentTransactions ts) = min 20 (length ts)"
    by (simp add: paymentTransactions_def sort_newest_first_def)
  have d: "date \<circ> toPaymentHistoryItem = t_date"
    by (rule ext) (simp add: toPaymentHistoryItem_def)
  from split have "sorted_wrt (\<lambda>a b. t_date b \<le> t_date a) (take 20 ?s)"
    by (simp only: sorted_wrt_append)
  then show "sorted_wrt (\<lambda>p q. date q \<le> date p) (paymentTransactions ts)"
    by (simp add: paymentTransactions_def sorted_wrt_map toPaymentHistoryItem_def)
  from split show "\<forall>p \<in> set (paymentTransactions ts).
        \<forall>t \<in> set (drop 20 (sort_newest_first ts)). t_date t \<le> date p"
    by (simp only: sorted_wrt_append) (simp add: paymentTransactions_def toPaymentHistoryItem_def)
  have "paymentTransactions ts @ map toPaymentHistoryItem (drop 20 ?s)
          = map toPaymentHistoryItem (take 20 ?s @ drop 20 ?s)"
    by (simp only: paymentTransactions_def map_append)
  also have "\<dots> = map toPaymentHistoryItem ?s"
    by simp
  finally show "mset (paymentTransactions ts @ map toPaymentHistoryItem (drop 20 ?s))
       = mset (map toPaymentHistoryItem ts)"
    by (simp add: sort_newest_first_def)
  show "amount (toPaymentHistoryItem t) = of_int \<bar>t_amount t\<bar> / 1000"
    by (simp add: toPaymentHistoryItem_def milliunitsToCurrency_def)
  show "date (toPaymentHistoryItem t) = t_date t"
    by (simp add: toPaymentHistoryItem_def)
qed

theorem paymentTransactions_reconciles_witness:
  "toPaymentHistoryItem \<lparr>t_date = 21, t_amount = - 21000, t_cleared = ''cleared'', t_memo = None\<rparr>
     \<in> set (paymentTransactions
          (map (\<lambda>i. \<lparr>t_date = i, t_amount = - 1000 * i, t_cleared = ''cleared'', t_memo = None\<rparr>)
             [1..21]))
   \<and> \<lparr>t_date = 1, t_amount = - 1000, t_cleared = ''cleared'', t_memo = None\<rparr>
     \<in> set (drop 20 (sort_newest_first
          (map (\<lambda>i. \<lparr>t_date = i, t_amount = - 1000 * i, t_cleared = ''cleared'', t_memo = None\<rparr>)
             [1..21])))
   \<and> t_date \<lparr>t_date = 1, t_amount = - 1000, t_cleared = ''cleared'', t_memo = None\<rparr>
     \<le> date (toPaymentHistoryItem
          \<lparr>t_date = 21, t_amount = - 21000, t_cleared = ''cleared'', t_memo = None\<rparr>)
   \<and> length (paymentTransactions
          (map (\<lambda>i. \<lparr>t_date = i, t_amount = - 1000 * i, t_cleared = ''cleared'', t_memo = None\<rparr>)
             [1..21])) = 20"
proof -
  let ?ts = "map (\<lambda>i. \<lparr>t_date = i, t_amount = - 1000 * i, t_cleared = ''cleared'',
                        t_memo = None\<rparr>) [1..21]"
  let ?new = "\<lparr>t_date = 21, t_amount = - 21000, t_cleared = ''cleared'', t_memo = None\<rparr>"
  let ?old = "\<lparr>t_date = 1, t_amount = - 1000, t_cleared = ''cleared'', t_memo = None\<rparr>"
  have kept: "toPaymentHistoryItem ?new \<in> set (paymentTransactions ?ts)"
    by code_simp
  have dropped: "?old \<in> set (drop 20 (sort_newest_first ?ts))"
    by code_simp
  have len: "length ?ts = 21"
    by code_simp
  have l: "length (paymentTransactions ?ts) = min 20 (length ?ts)"
    and q: "\<forall>p \<in> set (paymentTransactions ?ts).
              \<forall>t \<in> set (drop 20 (sort_newest_first ?ts)). t_date t \<le> date p"
    using paymentTransactions_reconciles [of ?ts] by blast+
  from q kept dropped have "t_date ?old \<le> date (toPaymentHistoryItem ?new)"
    by blast
  moreover have "length (paymentTransactions ?ts) = 20"
    by (simp only: l len)
  ultimately show ?thesis
    using kept dropped by blast
qed

lemma amount_reconciled: "p \<in> set (paymentTransactions ts) \<Longrightarrow> 0 \<le> amount p"
  by (auto simp add: paymentTransactions_def amount_nonneg)

text \<open>
  Claim C10.  Every record of the reconciled history has a non-negative amount.  So for
  such a record the filter of the paid days decides by the date window and the weekday
  alone, and the test for a payment made today decides by the date alone.
\<close>

theorem reconciled_amount_nonneg:
  "(\<forall>p \<in> set (paymentTransactions ts). 0 \<le> amount p)
   \<and> (\<forall>p \<in> set (paymentTransactions ts).
        isPaidDay now (dayjs_parse endDate) pds p =
          (format_date now \<le> date p \<and> date p \<le> endDate \<and>
           day (dayjs_parse (date p)) \<in> set pds))
   \<and> madePaymentToday td (paymentTransactions ts) =
        (\<exists>p \<in> set (paymentTransactions ts). date p = td)"
proof (intro conjI ballI)
  fix p assume p: "p \<in> set (paymentTransactions ts)"
  then show "0 \<le> amount p" by (rule amount_reconciled)
  then show "isPaidDay now (dayjs_parse endDate) pds p =
          (format_date now \<le> date p \<and> date p \<le> endDate \<and>
           day (dayjs_parse (date p)) \<in> set pds)"
    by (simp add: isPaidDay_window isScheduledDay_spec_def day_parse)
next
  show "madePaymentToday td (paymentTransactions ts) =
        (\<exists>p \<in> set (paymentTransactions ts). date p = td)"
    using amount_reconciled [of _ ts] by (auto simp add: madePaymentToday_iff)
qed

theorem reconciled_amount_nonneg_witness:
  "toPaymentHistoryItem \<lparr>t_date = 4, t_amount = - 20000, t_cleared = ''cleared'', t_memo = None\<rparr>
     \<in> set (paymentTransactions
          [\<lparr>t_date = 4, t_amount = - 20000, t_cleared = ''cleared'', t_memo = None\<rparr>])
   \<and> 0 \<le> amount (toPaymentHistoryItem
          \<lparr>t_date = 4, t_amount = - 20000, t_cleared = ''cleared'', t_memo = None\<rparr>)
   \<and> isPaidDay (4 * 86400000 + 36000000) (dayjs_parse 6) [1, 2, 3, 4, 5]
        (toPaymentHistoryItem
          \<lparr>t_date = 4, t_amount = - 20000, t_cleared = ''cleared'', t_memo = None\<rparr>)"
proof -
  let ?t = "\<lparr>t_date = 4, t_amount = - 20000, t_cleared = ''cleared'', t_memo = None\<rparr>"
  have m: "toPaymentHistoryItem ?t \<in> set (paymentTransactions [?t])"
    by (simp add: paymentTransactions_def sort_newest_first_def)
  have w: "format_date (4 * 86400000 + 36000000) \<le> date (toPaymentHistoryItem ?t)
           \<and> date (toPaymentHistoryItem ?t) \<le> 6
           \<and> day (dayjs_parse (date (toPaymentHistoryItem ?t))) \<in> set [1, 2, 3, 4, 5]"
    by (simp add: toPaymentHistoryItem_def format_date_def day_parse MILLISECONDS_A_DAY_def)
  from reconciled_amount_nonneg [of "[?t]" "4 * 86400000 + 36000000" 6 "[1, 2, 3, 4, 5]"] m w show ?thesis
    by blast
qed

section \<open>The currency round trip\<close>



end
